theory Spec2Isabelle
  imports Main
begin

section \<open>OAuth2 (draft 25) grant types: data model\<close>

text \<open>
  The embedding follows \<^verbatim>\<open>oauthlib/oauth2/draft25/grant_types.py\<close>. Python objects
  are modelled as follows.
  \<^item> An attribute that may be \<^verbatim>\<open>None\<close> is an \<open>option\<close>; Python's truth test
    (\<^verbatim>\<open>if request.client_id\<close>) is \<open>truthy\<close>: \<^verbatim>\<open>None\<close> and the empty string or
    list are false.
  \<^item> A dictionary built by the code is an association list in insertion order; the
    theorems read it through \<open>map_of\<close> and \<open>set\<close> only, since the order of
    \<^verbatim>\<open>dict.items()\<close> is not fixed.
  \<^item> The methods a subclass must implement (the collaborator hooks) are fields of the
    record \<open>collaborator\<close>. A hook may have effects, so each one takes and returns the
    collaborator's state \<open>'s\<close>. A hook receives its arguments as values and confines its
    effects to \<open>'s\<close>.
  \<^item> \<^verbatim>\<open>raise errors.X(...)\<close> is the result \<open>Inl\<close> of a sum; the request is returned
    together with the result because the code mutates it in place and reads it
    again after catching the error.
\<close>

datatype pyval = PyStr string | PyInt int | PyNone

type_synonym pydict = "(string \<times> pyval) list"

text \<open>An optional string stored as a dictionary value.\<close>

fun py_of :: "string option \<Rightarrow> pyval" where
  "py_of None = PyNone"
| "py_of (Some x) = PyStr x"

record request =
  client_id :: "string option"
  response_type :: "string option"
  redirect_uri :: "string option"
  scopes :: "string list option"
  state :: "string option"
  grant_type :: "string option"
  code :: "string option"
  client :: "string option"
  params :: "(string \<times> string) list"

fun truthy :: "'a list option \<Rightarrow> bool" where
  "truthy None = False"
| "truthy (Some xs) = (xs \<noteq> [])"

subsection \<open>The error model (module \<^verbatim>\<open>errors\<close>)\<close>

datatype error_kind =
    InvalidRequestError
  | UnauthorizedClientError
  | UnsupportedResponseTypeError
  | InvalidScopeError
  | AccessDeniedError
  | UnsupportedGrantTypeError
  | InvalidGrantError

record oauth2_error =
  e_kind :: error_kind
  e_description :: "string option"
  e_state :: "string option"

text \<open>The constructor call \<^verbatim>\<open>errors.K(state=st, description=d)\<close>.\<close>

definition raise_error :: "error_kind \<Rightarrow> string option \<Rightarrow> string option \<Rightarrow> oauth2_error" where
  "raise_error k st d = \<lparr>e_kind = k, e_description = d, e_state = st\<rparr>"

text \<open>
  Modelled from the spec: the module \<^verbatim>\<open>errors\<close> (the class \<^verbatim>\<open>OAuth2Error\<close>, its
  machine-readable codes and its two serialisations \<^verbatim>\<open>twotuples\<close> and \<^verbatim>\<open>json\<close>) is
  not among the sources. The spec gives the redirect form as the ordered pairs
  \<^verbatim>\<open>[("error", kind_code), ("state", state)?, ...]\<close> and the body form as the JSON object
  \<^verbatim>\<open>{"error": kind_code, "error_description"?: ..., "state"?: ...}\<close>; an optional field is
  present exactly when it was supplied at construction.
\<close>

fun kind_code :: "error_kind \<Rightarrow> string" where
  "kind_code InvalidRequestError = ''invalid_request''"
| "kind_code UnauthorizedClientError = ''unauthorized_client''"
| "kind_code UnsupportedResponseTypeError = ''unsupported_response_type''"
| "kind_code InvalidScopeError = ''invalid_scope''"
| "kind_code AccessDeniedError = ''access_denied''"
| "kind_code UnsupportedGrantTypeError = ''unsupported_grant_type''"
| "kind_code InvalidGrantError = ''invalid_grant''"

definition optional_pair :: "string \<Rightarrow> string option \<Rightarrow> pydict" where
  "optional_pair k v = (case v of None \<Rightarrow> [] | Some x \<Rightarrow> [(k, PyStr x)])"

definition twotuples :: "oauth2_error \<Rightarrow> pydict" where
  "twotuples e =
     [(''error'', PyStr (kind_code (e_kind e)))]
     @ optional_pair ''state'' (e_state e)
     @ optional_pair ''error_description'' (e_description e)"

definition json_fields :: "oauth2_error \<Rightarrow> pydict" where
  "json_fields e =
     [(''error'', PyStr (kind_code (e_kind e)))]
     @ optional_pair ''error_description'' (e_description e)
     @ optional_pair ''state'' (e_state e)"

subsection \<open>Responses\<close>

text \<open>
  Modelled from the spec: \<^verbatim>\<open>add_params_to_uri\<close> of \<^verbatim>\<open>oauthlib.common\<close> is not among
  the sources. The spec says that it appends the pairs to the target URI as query
  parameters, or as fragment parameters when \<^verbatim>\<open>fragment=True\<close>. The response keeps the
  three arguments of the call: the target, the pairs and the fragment flag.
  \<^verbatim>\<open>json.dumps\<close> likewise keeps the dictionary it serialises.
\<close>

datatype response =
    UriWithParams "string option" pydict bool
  | JsonText pydict

definition add_params_to_uri :: "string option \<Rightarrow> pydict \<Rightarrow> bool \<Rightarrow> response" where
  "add_params_to_uri uri ps fragment = UriWithParams uri ps fragment"

definition json_dumps :: "pydict \<Rightarrow> response" where
  "json_dumps d = JsonText d"

definition json :: "oauth2_error \<Rightarrow> response" where
  "json e = json_dumps (json_fields e)"

subsection \<open>The collaborator\<close>

text \<open>
  The hooks of \<^verbatim>\<open>AuthorizationBase\<close>, \<^verbatim>\<open>AuthorizationCodeGrant\<close> and
  \<^verbatim>\<open>ImplicitGrant\<close> that raise \<^verbatim>\<open>NotImplementedError\<close> in the source, and the names
  the source uses without defining them: the attribute \<^verbatim>\<open>response_type_handlers\<close>, the
  method \<^verbatim>\<open>get_scopes\<close>, and the imported \<^verbatim>\<open>generate_token\<close> and \<^verbatim>\<open>is_absolute_uri\<close>.
  \<^verbatim>\<open>validate_client(client, *args)\<close> receives its extra positional arguments as a list.
\<close>

record 's collaborator =
  validate_client :: "string option \<Rightarrow> string option list \<Rightarrow> 's \<Rightarrow> bool \<times> 's"
  validate_scopes :: "string option \<Rightarrow> string list option \<Rightarrow> 's \<Rightarrow> bool \<times> 's"
  validate_redirect_uri :: "string option \<Rightarrow> string option \<Rightarrow> 's \<Rightarrow> bool \<times> 's"
  get_default_redirect_uri :: "string option \<Rightarrow> 's \<Rightarrow> string option \<times> 's"
  get_default_scopes :: "string option \<Rightarrow> 's \<Rightarrow> string list \<times> 's"
  validate_code :: "string option \<Rightarrow> string option \<Rightarrow> 's \<Rightarrow> bool \<times> 's"
  get_scopes :: "string option \<Rightarrow> string option \<Rightarrow> 's \<Rightarrow> string list \<times> 's"
  save_authorization_grant :: "string option \<Rightarrow> pydict \<Rightarrow> string option \<Rightarrow> 's \<Rightarrow> 's"
  save_grant :: "string option \<Rightarrow> pydict \<Rightarrow> string option \<Rightarrow> 's \<Rightarrow> 's"
  response_type_handlers :: "string list"
  generate_token :: "'s \<Rightarrow> string \<times> 's"
  is_absolute_uri :: "string option \<Rightarrow> bool"

section \<open>AuthorizationBase.validate\_request\<close>

definition validate_request ::
  "'s collaborator \<Rightarrow> request \<Rightarrow> 's \<Rightarrow> (oauth2_error + bool) \<times> request \<times> 's" where
  "validate_request self request s =
    (if \<not> truthy (client_id request) then
       (Inl (raise_error InvalidRequestError (state request)
               (Some ''Missing client_id parameter.'')), request, s)
     else if \<not> truthy (response_type request) then
       (Inl (raise_error InvalidRequestError (state request)
               (Some ''Missing response_type parameter.'')), request, s)
     else
       case validate_client self (client_id request) [] s of (client_ok, s1) \<Rightarrow>
       if \<not> client_ok then
         (Inl (raise_error UnauthorizedClientError (state request) None), request, s1)
       else if response_type request \<notin> set (map Some (response_type_handlers self)) then
         (Inl (raise_error UnsupportedResponseTypeError (state request) None), request, s1)
       else
         (case (if truthy (scopes request) then
                  (case validate_scopes self (client_id request) (scopes request) s1 of
                     (scopes_ok, s2) \<Rightarrow>
                       if \<not> scopes_ok then
                         Inl (raise_error InvalidScopeError (state request) None, s2)
                       else Inr (request, s2))
                else
                  (case get_default_scopes self (client_id request) s1 of
                     (default_scopes, s2) \<Rightarrow>
                       Inr (request\<lparr>scopes := Some default_scopes\<rparr>, s2)))
          of
            Inl (e, s2) \<Rightarrow> (Inl e, request, s2)
          | Inr (request2, s2) \<Rightarrow>
              if truthy (redirect_uri request2) then
                if \<not> is_absolute_uri self (redirect_uri request2) then
                  (Inl (raise_error InvalidRequestError (state request2)
                          (Some ''Non absolute redirect URI. See RFC3986'')), request2, s2)
                else
                  (case validate_redirect_uri self (client_id request2)
                          (redirect_uri request2) s2
                   of (uri_ok, s3) \<Rightarrow>
                     if \<not> uri_ok then
                       (Inl (raise_error AccessDeniedError (state request2) None), request2, s3)
                     else (Inr True, request2, s3))
              else
                (case get_default_redirect_uri self (client_id request2) s2 of
                   (default_uri, s3) \<Rightarrow>
                     let request3 = request2\<lparr>redirect_uri := default_uri\<rparr> in
                     if \<not> truthy (redirect_uri request3) then
                       (Inl (raise_error AccessDeniedError (state request3) None),
                        request3, s3)
                     else (Inr True, request3, s3))))"

section \<open>AuthorizationCodeGrant\<close>

definition acg_expires_in :: int where
  "acg_expires_in = 3600"

fun join :: "string \<Rightarrow> string list \<Rightarrow> string" where
  "join sep [] = []"
| "join sep [x] = x"
| "join sep (x # y # ys) = x @ sep @ join sep (y # ys)"

text \<open>
  \<^verbatim>\<open>create_token(self)\<close> reads \<^verbatim>\<open>self.scopes\<close>, which \<^verbatim>\<open>create_token_response\<close>
  assigns just before the call; it is the argument \<open>self_scopes\<close> here. The two calls
  of \<^verbatim>\<open>generate_token\<close> run in the order of the dictionary display.
\<close>

definition acg_create_token :: "'s collaborator \<Rightarrow> string list \<Rightarrow> 's \<Rightarrow> pydict \<times> 's" where
  "acg_create_token self self_scopes s =
    (case generate_token self s of (access, s1) \<Rightarrow>
     case generate_token self s1 of (refresh, s2) \<Rightarrow>
       ([(''access_token'', PyStr access),
         (''refresh_token'', PyStr refresh),
         (''expires_in'', PyInt acg_expires_in),
         (''scope'', PyStr (join '' '' self_scopes))], s2))"

definition create_code :: "'s collaborator \<Rightarrow> request \<Rightarrow> 's \<Rightarrow> pydict \<times> 's" where
  "create_code self request s =
    (case generate_token self s of (tok, s1) \<Rightarrow>
       let grant = [(''code'', PyStr tok)] in
       (if truthy (state request)
        then grant @ [(''state'', py_of (state request))]
        else grant, s1))"

definition create_authorization_grant :: "'s collaborator \<Rightarrow> request \<Rightarrow> 's \<Rightarrow> pydict \<times> 's" where
  "create_authorization_grant self request s =
    (case generate_token self s of (tok, s1) \<Rightarrow>
       let grant = [(''code'', PyStr tok)] in
       (if truthy (state request)
        then grant @ [(''state'', py_of (state request))]
        else grant, s1))"

definition acg_create_authorization_response ::
  "'s collaborator \<Rightarrow> request \<Rightarrow> 's \<Rightarrow> response \<times> request \<times> 's" where
  "acg_create_authorization_response self request s =
    (case validate_request self request s of
       (Inl e, request1, s1) \<Rightarrow>
         (add_params_to_uri (redirect_uri request1) (twotuples e) False, request1, s1)
     | (Inr _, request1, s1) \<Rightarrow>
         case create_authorization_grant self request1 s1 of (grant, s2) \<Rightarrow>
         let s3 = save_authorization_grant self (client_id request1) grant (state request1) s2
         in (add_params_to_uri (redirect_uri request1) grant False, request1, s3))"

definition acg_create_token_response ::
  "'s collaborator \<Rightarrow> request \<Rightarrow> (pydict \<Rightarrow> 's \<Rightarrow> pydict \<times> 's) \<Rightarrow> 's
     \<Rightarrow> response \<times> request \<times> 's" where
  "acg_create_token_response self request token_handler s =
    (let request_c = request\<lparr>code := map_of (params request) ''code''\<rparr>;
         request_r = request_c\<lparr>redirect_uri := map_of (params request_c) ''redirect_uri''\<rparr>
     in case validate_request self request_r s of
          (Inl e, request1, s1) \<Rightarrow> (json e, request1, s1)
        | (Inr _, request1, s1) \<Rightarrow>
            case get_scopes self (client request1) (code request1) s1 of (self_scopes, s2) \<Rightarrow>
            case acg_create_token self self_scopes s2 of (token, s3) \<Rightarrow>
            case token_handler token s3 of (token', s4) \<Rightarrow>
              (json_dumps token', request1, s4))"

definition validate_token_request ::
  "'s collaborator \<Rightarrow> request \<Rightarrow> 's \<Rightarrow> (oauth2_error + unit) \<times> 's" where
  "validate_token_request self request s =
    (if \<not> (grant_type request = Some ''authorization_code'') then
       (Inl (raise_error UnsupportedGrantTypeError None None), s)
     else if \<not> truthy (code request) then
       (Inl (raise_error InvalidRequestError None (Some ''Missing code parameter.'')), s)
     else
       case validate_client self (client request) [grant_type request] s of (client_ok, s1) \<Rightarrow>
       if \<not> client_ok then (Inl (raise_error UnauthorizedClientError None None), s1)
       else
         case validate_code self (client request) (code request) s1 of (code_ok, s2) \<Rightarrow>
         if \<not> code_ok then (Inl (raise_error InvalidGrantError None None), s2)
         else (Inr (), s2))"

section \<open>ImplicitGrant\<close>

definition ig_expires_in :: int where
  "ig_expires_in = 3600"

datatype py_exception = TypeError

text \<open>
  \<^verbatim>\<open>' '.join(request.scopes)\<close> raises \<^verbatim>\<open>TypeError\<close> when \<^verbatim>\<open>request.scopes\<close> is
  \<^verbatim>\<open>None\<close>. The access token is generated first, as the dictionary display does.
\<close>

definition ig_create_token ::
  "'s collaborator \<Rightarrow> request \<Rightarrow> 's \<Rightarrow> (py_exception + pydict) \<times> 's" where
  "ig_create_token self request s =
    (case generate_token self s of (access, s1) \<Rightarrow>
      (case scopes request of
         None \<Rightarrow> (Inl TypeError, s1)
       | Some scs \<Rightarrow>
           (Inr [(''access_token'', PyStr access),
                 (''expires_in'', PyInt ig_expires_in),
                 (''scope'', PyStr (join '' '' scs)),
                 (''state'', py_of (state request))],
            s1)))"

definition ig_create_authorization_response ::
  "'s collaborator \<Rightarrow> request \<Rightarrow> ('s collaborator \<Rightarrow> pydict \<Rightarrow> 's \<Rightarrow> pydict \<times> 's) \<Rightarrow> 's
     \<Rightarrow> (py_exception + response) \<times> request \<times> 's" where
  "ig_create_authorization_response self request token_handler s =
    (case validate_request self request s of
       (Inl e, request1, s1) \<Rightarrow>
         (Inr (add_params_to_uri (redirect_uri request1) (twotuples e) True), request1, s1)
     | (Inr _, request1, s1) \<Rightarrow>
         (case ig_create_token self request1 s1 of
            (Inl exn, s2) \<Rightarrow> (Inl exn, request1, s2)
          | (Inr token, s2) \<Rightarrow>
              (case token_handler self token s2 of (token', s3) \<Rightarrow>
                 let s4 = save_grant self (client_id request1) token' (state request1) s3
                 in (Inr (add_params_to_uri (redirect_uri request1) token' True),
                     request1, s4))))"

section \<open>The validator as the spec words it\<close>

text \<open>
  The spec gives the validator as six checks applied in a fixed order, stopping at the
  first failure. Each check below follows the spec's wording of one step; \<open>run_checks\<close>
  applies a list of checks from left to right and stops at the first \<open>Inl\<close>.
  \<open>spec_validate\<close> is compared with \<open>validate_request\<close> further down.
\<close>

type_synonym 's check =
  "'s collaborator \<Rightarrow> request \<times> 's \<Rightarrow> (oauth2_error \<times> request \<times> 's) + (request \<times> 's)"

definition spec_client_id_present :: "'s check" where
  "spec_client_id_present self = (\<lambda>(request, s).
     if truthy (client_id request) then Inr (request, s)
     else Inl (raise_error InvalidRequestError (state request)
                 (Some ''Missing client_id parameter.''), request, s))"

definition spec_response_type_present :: "'s check" where
  "spec_response_type_present self = (\<lambda>(request, s).
     if truthy (response_type request) then Inr (request, s)
     else Inl (raise_error InvalidRequestError (state request)
                 (Some ''Missing response_type parameter.''), request, s))"

definition spec_client_authority :: "'s check" where
  "spec_client_authority self = (\<lambda>(request, s).
     case validate_client self (client_id request) [] s of (ok, s') \<Rightarrow>
       if ok then Inr (request, s')
       else Inl (raise_error UnauthorizedClientError (state request) None, request, s'))"

definition spec_response_type_supported :: "'s check" where
  "spec_response_type_supported self = (\<lambda>(request, s).
     if response_type request \<in> Some ` set (response_type_handlers self) then Inr (request, s)
     else Inl (raise_error UnsupportedResponseTypeError (state request) None, request, s))"

definition spec_scope_resolution :: "'s check" where
  "spec_scope_resolution self = (\<lambda>(request, s).
     if truthy (scopes request) then
       (case validate_scopes self (client_id request) (scopes request) s of (ok, s') \<Rightarrow>
          if ok then Inr (request, s')
          else Inl (raise_error InvalidScopeError (state request) None, request, s'))
     else
       (case get_default_scopes self (client_id request) s of (d, s') \<Rightarrow>
          Inr (request\<lparr>scopes := Some d\<rparr>, s')))"

definition spec_redirect_uri_resolution :: "'s check" where
  "spec_redirect_uri_resolution self = (\<lambda>(request, s).
     if truthy (redirect_uri request) then
       if \<not> is_absolute_uri self (redirect_uri request) then
         Inl (raise_error InvalidRequestError (state request)
                (Some ''Non absolute redirect URI. See RFC3986''), request, s)
       else
         (case validate_redirect_uri self (client_id request) (redirect_uri request) s of
            (ok, s') \<Rightarrow>
              if ok then Inr (request, s')
              else Inl (raise_error AccessDeniedError (state request) None, request, s'))
     else
       (case get_default_redirect_uri self (client_id request) s of (d, s') \<Rightarrow>
          if truthy d then Inr (request\<lparr>redirect_uri := d\<rparr>, s')
          else Inl (raise_error AccessDeniedError (state request) None,
                    request\<lparr>redirect_uri := d\<rparr>, s')))"

fun run_checks :: "'s check list \<Rightarrow> 's check" where
  "run_checks [] self x = Inr x"
| "run_checks (c # cs) self x =
     (case c self x of Inl failure \<Rightarrow> Inl failure | Inr x' \<Rightarrow> run_checks cs self x')"

definition spec_validate ::
  "'s collaborator \<Rightarrow> request \<Rightarrow> 's \<Rightarrow> (oauth2_error + bool) \<times> request \<times> 's" where
  "spec_validate self request s =
     (case run_checks
             [spec_client_id_present, spec_response_type_present, spec_client_authority,
              spec_response_type_supported, spec_scope_resolution,
              spec_redirect_uri_resolution] self (request, s)
      of Inl (e, request', s') \<Rightarrow> (Inl e, request', s')
       | Inr (request', s') \<Rightarrow> (Inr True, request', s'))"

section \<open>Observing the hooks\<close>

text \<open>
  \<open>spy c\<close> is the collaborator \<open>c\<close> with a log beside its state: every hook appends
  its name to the log when it is called, and otherwise behaves as in \<open>c\<close>.
\<close>

datatype hook =
    ValidateClient | ValidateScopes | ValidateRedirectUri | GetDefaultRedirectUri
  | GetDefaultScopes | ValidateCode | GetScopes | SaveAuthorizationGrant | SaveGrant

definition logged :: "hook \<Rightarrow> ('s \<Rightarrow> 'a \<times> 's) \<Rightarrow> 's \<times> hook list \<Rightarrow> 'a \<times> 's \<times> hook list" where
  "logged h f = (\<lambda>(s, log). case f s of (a, s') \<Rightarrow> (a, s', log @ [h]))"

definition logged_unit :: "hook \<Rightarrow> ('s \<Rightarrow> 's) \<Rightarrow> 's \<times> hook list \<Rightarrow> 's \<times> hook list" where
  "logged_unit h f = (\<lambda>(s, log). (f s, log @ [h]))"

definition spy :: "'s collaborator \<Rightarrow> ('s \<times> hook list) collaborator" where
  "spy c =
    \<lparr>validate_client = (\<lambda>cl args. logged ValidateClient (validate_client c cl args)),
     validate_scopes = (\<lambda>cl scs. logged ValidateScopes (validate_scopes c cl scs)),
     validate_redirect_uri = (\<lambda>cl u. logged ValidateRedirectUri (validate_redirect_uri c cl u)),
     get_default_redirect_uri = (\<lambda>cl. logged GetDefaultRedirectUri (get_default_redirect_uri c cl)),
     get_default_scopes = (\<lambda>cl. logged GetDefaultScopes (get_default_scopes c cl)),
     validate_code = (\<lambda>cl cd. logged ValidateCode (validate_code c cl cd)),
     get_scopes = (\<lambda>cl cd. logged GetScopes (get_scopes c cl cd)),
     save_authorization_grant =
       (\<lambda>cl g st. logged_unit SaveAuthorizationGrant (save_authorization_grant c cl g st)),
     save_grant = (\<lambda>cl g st. logged_unit SaveGrant (save_grant c cl g st)),
     response_type_handlers = response_type_handlers c,
     generate_token = (\<lambda>(s, log). case generate_token c s of (t, s') \<Rightarrow> (t, s', log)),
     is_absolute_uri = is_absolute_uri c\<rparr>"

text \<open>
  A token handler of the redemption flow, run beside the log without writing to it.
\<close>

definition quiet :: "(pydict \<Rightarrow> 's \<Rightarrow> pydict \<times> 's) \<Rightarrow> pydict \<Rightarrow> 's \<times> hook list \<Rightarrow> pydict \<times> 's \<times> hook list" where
  "quiet th = (\<lambda>token (s, log). case th token s of (token', s') \<Rightarrow> (token', s', log))"

section \<open>A small collaborator for concrete runs\<close>

text \<open>
  An in-memory backend: a list of registered clients, default scopes and a default
  redirect URI, the outstanding authorization codes (each usable once), the saved
  grants, and a counter from which tokens are made.
\<close>

record backend =
  clients :: "string list"
  default_scopes :: "string list"
  default_redirect_uri :: "string option"
  outstanding_codes :: "string list"
  saved :: "(string option \<times> pydict \<times> string option) list"
  counter :: nat

definition backend_validate_code ::
  "string option \<Rightarrow> string option \<Rightarrow> backend \<Rightarrow> bool \<times> backend" where
  "backend_validate_code cl cd b =
    (case cd of
       None \<Rightarrow> (False, b)
     | Some c \<Rightarrow>
         if c \<in> set (outstanding_codes b)
         then (True, b\<lparr>outstanding_codes := removeAll c (outstanding_codes b)\<rparr>)
         else (False, b))"

definition in_memory :: "backend collaborator" where
  "in_memory =
    \<lparr>validate_client = (\<lambda>cl args b. (cl \<in> Some ` set (clients b), b)),
     validate_scopes = (\<lambda>cl scs b. (True, b)),
     validate_redirect_uri = (\<lambda>cl u b. (True, b)),
     get_default_redirect_uri = (\<lambda>cl b. (default_redirect_uri b, b)),
     get_default_scopes = (\<lambda>cl b. (default_scopes b, b)),
     validate_code = backend_validate_code,
     get_scopes = (\<lambda>cl cd b. (default_scopes b, b)),
     save_authorization_grant = (\<lambda>cl g st b. b\<lparr>saved := saved b @ [(cl, g, st)]\<rparr>),
     save_grant = (\<lambda>cl g st b. b\<lparr>saved := saved b @ [(cl, g, st)]\<rparr>),
     response_type_handlers = [''code'', ''token''],
     generate_token = (\<lambda>b. (''t'' @ replicate (counter b) (CHR ''x''),
                             b\<lparr>counter := Suc (counter b)\<rparr>)),
     is_absolute_uri = (\<lambda>u. case u of None \<Rightarrow> False | Some x \<Rightarrow> take 8 x = ''https://'')\<rparr>"

definition backend0 :: backend where
  "backend0 =
    \<lparr>clients = [''abc''], default_scopes = [''read''],
     default_redirect_uri = Some ''https://default.example/cb'',
     outstanding_codes = [''c1''], saved = [], counter = 0\<rparr>"

definition blank_request :: request where
  "blank_request =
    \<lparr>client_id = None, response_type = None, redirect_uri = None, scopes = None,
     state = None, grant_type = None, code = None, client = None, params = []\<rparr>"

text \<open>The request of the spec's two examples.\<close>

definition example_request :: request where
  "example_request =
     blank_request\<lparr>client_id := Some ''abc'', response_type := Some ''code'',
       redirect_uri := Some ''https://app.example/cb'', state := Some ''xyz''\<rparr>"

text \<open>
  A redemption request for the code \<open>c1\<close>, and token handlers: one that returns the
  token as it is (for either grant), one that wraps the token into a single signed
  value, and one that removes the entries whose value is \<^verbatim>\<open>None\<close>.
\<close>

definition token_request :: request where
  "token_request =
     blank_request\<lparr>client_id := Some ''abc'', response_type := Some ''code'',
       grant_type := Some ''authorization_code'', client := Some ''abc'',
       params := [(''code'', ''c1''), (''redirect_uri'', ''https://app.example/cb'')]\<rparr>"

definition keep_token :: "pydict \<Rightarrow> 's \<Rightarrow> pydict \<times> 's" where
  "keep_token token s = (token, s)"

definition ig_keep_token :: "'s collaborator \<Rightarrow> pydict \<Rightarrow> 's \<Rightarrow> pydict \<times> 's" where
  "ig_keep_token self token s = (token, s)"

definition ig_wrap_token :: "'s collaborator \<Rightarrow> pydict \<Rightarrow> 's \<Rightarrow> pydict \<times> 's" where
  "ig_wrap_token self token s = ([(''jwt'', PyStr ''signed'')], s)"




section \<open>Properties of the validator\<close>

lemmas fixture_defs =
  in_memory_def backend0_def blank_request_def example_request_def token_request_def

lemma validate_request_refines:
  "validate_request self request s = spec_validate self request s"
  unfolding validate_request_def spec_validate_def
    spec_client_id_present_def spec_response_type_present_def spec_client_authority_def
    spec_response_type_supported_def spec_scope_resolution_def
    spec_redirect_uri_resolution_def
  by (simp add: Let_def split: prod.splits sum.splits)

lemma validate_request_missing_client_id:
  "\<not> truthy (client_id request) \<Longrightarrow>
   validate_request self request s =
     (Inl (raise_error InvalidRequestError (state request)
             (Some ''Missing client_id parameter.'')), request, s)"
  by (simp add: validate_request_def)

lemma validate_request_missing_response_type:
  "truthy (client_id request) \<Longrightarrow> \<not> truthy (response_type request) \<Longrightarrow>
   validate_request self request s =
     (Inl (raise_error InvalidRequestError (state request)
             (Some ''Missing response_type parameter.'')), request, s)"
  by (simp add: validate_request_def)

lemma validate_request_frame:
  "validate_request self request s = (res, request', s') \<Longrightarrow>
   request' = request\<lparr>scopes := scopes request', redirect_uri := redirect_uri request'\<rparr>"
  unfolding validate_request_def
  by (auto simp: Let_def split: prod.splits sum.splits if_splits)

lemma validate_request_success:
  "validate_request self request s = (Inr b, request', s') \<Longrightarrow>
   b \<and> truthy (client_id request) \<and> truthy (response_type request) \<and> truthy (redirect_uri request')"
  unfolding validate_request_def
  by (auto simp: Let_def split: prod.splits sum.splits if_splits)

lemma validate_request_scopes_changed:
  "validate_request self request s = (res, request', s') \<Longrightarrow>
   scopes request' \<noteq> scopes request \<Longrightarrow>
   \<not> truthy (scopes request) \<and>
   scopes request' = Some (fst (get_default_scopes self (client_id request)
                              (snd (validate_client self (client_id request) [] s))))"
  unfolding validate_request_def
  by (auto simp: Let_def split: prod.splits sum.splits if_splits)

lemma validate_request_redirect_uri_changed:
  "validate_request self request s = (res, request', s') \<Longrightarrow>
   redirect_uri request' \<noteq> redirect_uri request \<Longrightarrow>
   \<not> truthy (redirect_uri request) \<and>
   (\<exists>s0. redirect_uri request' = fst (get_default_redirect_uri self (client_id request) s0))"
  unfolding validate_request_def
  by (auto simp: Let_def split: prod.splits sum.splits if_splits) (metis fst_conv)+

lemma validate_request_resolved_scopes:
  "validate_request self request s = (Inr b, request', s') \<Longrightarrow>
   scopes request' =
     (if truthy (scopes request) then scopes request
      else Some (fst (get_default_scopes self (client_id request)
                        (snd (validate_client self (client_id request) [] s)))))"
  unfolding validate_request_def
  by (auto simp: Let_def split: prod.splits sum.splits if_splits)

lemma validate_request_error_state:
  "validate_request self request s = (Inl e, request', s') \<Longrightarrow> e_state e = state request"
  unfolding validate_request_def
  by (auto simp: Let_def raise_error_def split: prod.splits sum.splits if_splits)

lemma validate_request_keeps:
  assumes "validate_request self request s = (res, request', s')"
  shows "client_id request' = client_id request"
    and "response_type request' = response_type request"
    and "state request' = state request"
    and "grant_type request' = grant_type request"
    and "code request' = code request"
    and "client request' = client request"
    and "params request' = params request"
proof -
  from validate_request_frame [OF assms]
  obtain sc ru where "request' = request\<lparr>scopes := sc, redirect_uri := ru\<rparr>"
    by blast
  then show "client_id request' = client_id request"
    and "response_type request' = response_type request"
    and "state request' = state request"
    and "grant_type request' = grant_type request"
    and "code request' = code request"
    and "client request' = client request"
    and "params request' = params request"
    by simp_all
qed

lemma validate_request_unauthorized_client:
  "truthy (client_id request) \<Longrightarrow> truthy (response_type request) \<Longrightarrow>
   \<not> fst (validate_client self (client_id request) [] s) \<Longrightarrow>
   validate_request self request s =
     (Inl (raise_error UnauthorizedClientError (state request) None), request,
      snd (validate_client self (client_id request) [] s))"
  by (cases "validate_client self (client_id request) [] s") (simp add: validate_request_def)

text \<open>
  Claim C2. The validator applies its six checks in the fixed order client\_id present,
  response\_type present, client authority, response\_type supported, scope resolution,
  redirect URI resolution, and stops at the first failure: it computes exactly what
  \<open>spec_validate\<close> computes. A request without client\_id, or with client\_id and
  without response\_type, fails with InvalidRequest; the result does not depend on the
  collaborator, the request and the collaborator's state are returned unchanged, and a
  spied collaborator's log stays empty: no hook has been called.
\<close>

theorem validate_request_ordered_checks:
  "validate_request self request s = spec_validate self request s
   \<and> (\<not> truthy (client_id request) \<longrightarrow>
        validate_request self request s =
          (Inl (raise_error InvalidRequestError (state request)
                  (Some ''Missing client_id parameter.'')), request, s)
        \<and> validate_request (spy self) request (s, []) =
          (Inl (raise_error InvalidRequestError (state request)
                  (Some ''Missing client_id parameter.'')), request, (s, [])))
   \<and> (truthy (client_id request) \<and> \<not> truthy (response_type request) \<longrightarrow>
        validate_request self request s =
          (Inl (raise_error InvalidRequestError (state request)
                  (Some ''Missing response_type parameter.'')), request, s)
        \<and> validate_request (spy self) request (s, []) =
          (Inl (raise_error InvalidRequestError (state request)
                  (Some ''Missing response_type parameter.'')), request, (s, [])))"
  by (simp add: validate_request_refines [symmetric] validate_request_missing_client_id
      validate_request_missing_response_type)

theorem validate_request_ordered_checks_witness:
  "validate_request in_memory blank_request backend0 =
     (Inl (raise_error InvalidRequestError None (Some ''Missing client_id parameter.'')),
      blank_request, backend0)
   \<and> validate_request (spy in_memory) (blank_request\<lparr>client_id := Some ''abc'', state := Some ''xyz''\<rparr>)
        (backend0, []) =
     (Inl (raise_error InvalidRequestError (Some ''xyz'')
             (Some ''Missing response_type parameter.'')),
      blank_request\<lparr>client_id := Some ''abc'', state := Some ''xyz''\<rparr>, (backend0, []))"
proof -
  let ?r = "blank_request\<lparr>client_id := Some ''abc'', state := Some ''xyz''\<rparr>"
  have h1: "\<not> truthy (client_id blank_request)"
    by (simp add: blank_request_def)
  have h2: "truthy (client_id ?r) \<and> \<not> truthy (response_type ?r)"
    by (simp add: blank_request_def)
  have s1: "state blank_request = None" and s2: "state ?r = Some ''xyz''"
    by (simp_all add: blank_request_def)
  from h1 validate_request_ordered_checks
      [where request = blank_request and self = in_memory and s = backend0]
  have c1: "validate_request in_memory blank_request backend0 =
     (Inl (raise_error InvalidRequestError (state blank_request)
             (Some ''Missing client_id parameter.'')), blank_request, backend0)"
    by blast
  from h2 validate_request_ordered_checks
      [where request = ?r and self = in_memory and s = backend0]
  have c2: "validate_request (spy in_memory) ?r (backend0, []) =
     (Inl (raise_error InvalidRequestError (state ?r)
             (Some ''Missing response_type parameter.'')), ?r, (backend0, []))"
    by blast
  from c1 c2 show ?thesis
    unfolding s1 s2 by simp
qed

text \<open>
  Claim C6 (amended). The validator changes only the fields \<open>scopes\<close> and
  \<open>redirect_uri\<close> of the request, each only when it was absent and only to the
  collaborator's default; every other field is returned as it was. When validation
  succeeds \<open>redirect_uri\<close> is populated, and \<open>scopes\<close> is populated exactly when
  the request carried scopes or the collaborator's default scopes are not empty.
\<close>

theorem validate_request_fills_defaults_only:
  assumes "validate_request self request s = (res, request', s')"
  shows "request' = request\<lparr>scopes := scopes request', redirect_uri := redirect_uri request'\<rparr>
    \<and> (scopes request' \<noteq> scopes request \<longrightarrow>
         \<not> truthy (scopes request) \<and>
         scopes request' = Some (fst (get_default_scopes self (client_id request)
                                    (snd (validate_client self (client_id request) [] s)))))
    \<and> (redirect_uri request' \<noteq> redirect_uri request \<longrightarrow>
         \<not> truthy (redirect_uri request) \<and>
         (\<exists>s0. redirect_uri request' = fst (get_default_redirect_uri self (client_id request) s0)))
    \<and> (res = Inr True \<longrightarrow>
         truthy (redirect_uri request') \<and>
         (truthy (scopes request') \<longleftrightarrow>
            truthy (scopes request) \<or>
            fst (get_default_scopes self (client_id request)
                   (snd (validate_client self (client_id request) [] s))) \<noteq> []))"
proof -
  let ?d = "fst (get_default_scopes self (client_id request)
                   (snd (validate_client self (client_id request) [] s)))"
  have frame: "request' = request\<lparr>scopes := scopes request', redirect_uri := redirect_uri request'\<rparr>"
    using assms by (rule validate_request_frame)
  have sc: "scopes request' \<noteq> scopes request \<longrightarrow>
         \<not> truthy (scopes request) \<and> scopes request' = Some ?d"
    using validate_request_scopes_changed [OF assms] by blast
  have ru: "redirect_uri request' \<noteq> redirect_uri request \<longrightarrow>
         \<not> truthy (redirect_uri request) \<and>
         (\<exists>s0. redirect_uri request' = fst (get_default_redirect_uri self (client_id request) s0))"
    using validate_request_redirect_uri_changed [OF assms] by blast
  have ok: "res = Inr True \<longrightarrow>
         truthy (redirect_uri request') \<and>
         (truthy (scopes request') \<longleftrightarrow> truthy (scopes request) \<or> ?d \<noteq> [])"
  proof
    assume r: "res = Inr True"
    from assms r have e: "validate_request self request s = (Inr True, request', s')"
      by simp
    have "truthy (redirect_uri request')"
      using validate_request_success [OF e] by simp
    moreover have "scopes request' =
        (if truthy (scopes request) then scopes request else Some ?d)"
      using validate_request_resolved_scopes [OF e] .
    then have "truthy (scopes request') \<longleftrightarrow> truthy (scopes request) \<or> ?d \<noteq> []"
      by simp
    ultimately show "truthy (redirect_uri request') \<and>
         (truthy (scopes request') \<longleftrightarrow> truthy (scopes request) \<or> ?d \<noteq> [])"
      by blast
  qed
  from frame sc ru ok show ?thesis by blast
qed

theorem validate_request_fills_defaults_only_witness:
  "validate_request in_memory (example_request\<lparr>redirect_uri := None\<rparr>) backend0 =
     (Inr True,
      example_request\<lparr>redirect_uri := Some ''https://default.example/cb'',
                      scopes := Some [''read'']\<rparr>, backend0)
   \<and> truthy (redirect_uri (example_request\<lparr>redirect_uri := Some ''https://default.example/cb'',
                      scopes := Some [''read'']\<rparr>))
   \<and> truthy (scopes (example_request\<lparr>redirect_uri := Some ''https://default.example/cb'',
                      scopes := Some [''read'']\<rparr>))"
proof -
  let ?r = "example_request\<lparr>redirect_uri := None\<rparr>"
  let ?r' = "example_request\<lparr>redirect_uri := Some ''https://default.example/cb'',
                      scopes := Some [''read'']\<rparr>"
  have run: "validate_request in_memory ?r backend0 = (Inr True, ?r', backend0)"
    by (simp add: validate_request_def fixture_defs)
  have d: "fst (get_default_scopes in_memory (client_id ?r)
                  (snd (validate_client in_memory (client_id ?r) [] backend0))) \<noteq> []"
    by (simp add: fixture_defs)
  from validate_request_fills_defaults_only [OF run] d
  have "truthy (redirect_uri ?r') \<and> truthy (scopes ?r')"
    by blast
  with run show ?thesis by blast
qed

text \<open>
  The claim as written also promises populated scopes after every success. A request
  with an empty scope list and a collaborator whose default scopes are empty pass
  validation with \<open>scopes\<close> still empty.
\<close>

theorem validate_request_unpopulated_scopes:
  "fst (validate_request in_memory (example_request\<lparr>scopes := Some []\<rparr>)
          (backend0\<lparr>default_scopes := []\<rparr>)) = Inr True
   \<and> \<not> truthy (scopes (fst (snd (validate_request in_memory
                                     (example_request\<lparr>scopes := Some []\<rparr>)
                                     (backend0\<lparr>default_scopes := []\<rparr>)))))"
  by (simp add: validate_request_def fixture_defs)

text \<open>
  Claim C9 (amended). After a successful validation \<open>scopes\<close> is the request's own
  scope list when it carried a non-empty one, and otherwise exactly the list the
  collaborator's default-scope policy returned; so it is non-empty if and only if the
  request carried scopes or that default list is non-empty.
\<close>

theorem validate_request_scopes_after_success:
  assumes "validate_request self request s = (Inr ok, request', s')"
  shows "scopes request' =
           (if truthy (scopes request) then scopes request
            else Some (fst (get_default_scopes self (client_id request)
                              (snd (validate_client self (client_id request) [] s)))))
    \<and> (truthy (scopes request') \<longleftrightarrow>
           truthy (scopes request) \<or>
           fst (get_default_scopes self (client_id request)
                  (snd (validate_client self (client_id request) [] s))) \<noteq> [])"
proof -
  have eq: "scopes request' =
           (if truthy (scopes request) then scopes request
            else Some (fst (get_default_scopes self (client_id request)
                              (snd (validate_client self (client_id request) [] s)))))"
    using assms by (rule validate_request_resolved_scopes)
  then show ?thesis by simp
qed

theorem validate_request_scopes_after_success_witness:
  "validate_request in_memory example_request backend0 =
     (Inr True, example_request\<lparr>scopes := Some [''read'']\<rparr>, backend0)
   \<and> scopes (example_request\<lparr>scopes := Some [''read'']\<rparr>) =
       Some (fst (get_default_scopes in_memory (Some ''abc'') backend0))
   \<and> truthy (scopes (example_request\<lparr>scopes := Some [''read'']\<rparr>))"
proof -
  let ?r' = "example_request\<lparr>scopes := Some [''read'']\<rparr>"
  have run: "validate_request in_memory example_request backend0 = (Inr True, ?r', backend0)"
    by (simp add: validate_request_def fixture_defs)
  have absent: "\<not> truthy (scopes example_request)"
    and cid: "client_id example_request = Some ''abc''"
    and vc: "snd (validate_client in_memory (Some ''abc'') [] backend0) = backend0"
    and d: "fst (get_default_scopes in_memory (Some ''abc'') backend0) \<noteq> []"
    by (simp_all add: fixture_defs)
  from validate_request_scopes_after_success [OF run] absent d
  have "scopes ?r' = Some (fst (get_default_scopes in_memory (Some ''abc'') backend0))
        \<and> truthy (scopes ?r')"
    unfolding cid vc by simp
  with run show ?thesis by blast
qed

text \<open>
  The claim as written promises non-empty scopes under every collaborator. With a
  collaborator whose default scopes are empty, the example request (which carries no
  scopes) passes validation with the empty scope list.
\<close>

theorem validate_request_empty_default_scopes:
  "fst (validate_request in_memory example_request (backend0\<lparr>default_scopes := []\<rparr>)) = Inr True
   \<and> scopes (fst (snd (validate_request in_memory example_request
                          (backend0\<lparr>default_scopes := []\<rparr>)))) = Some []"
  by (simp add: validate_request_def fixture_defs)

section \<open>Properties of the Authorization Code grant\<close>

lemma create_authorization_grant_fields:
  "create_authorization_grant self request s = (grant, s') \<Longrightarrow>
   s' = snd (generate_token self s)
   \<and> map_of grant ''code'' = Some (PyStr (fst (generate_token self s)))
   \<and> map_of grant ''state'' =
       (if truthy (state request) then map_option PyStr (state request) else None)
   \<and> fst ` set grant \<subseteq> {''code'', ''state''}"
  by (cases "state request")
     (auto simp: create_authorization_grant_def Let_def split: prod.splits if_splits)

lemma spy_validate_client:
  "validate_client (spy self) cl args (s, l) =
     (fst (validate_client self cl args s), snd (validate_client self cl args s),
      l @ [ValidateClient])"
  by (simp add: spy_def logged_def split: prod.splits)

text \<open>
  Claim C4. When the request passes validation, \<open>create_authorization_response\<close> of
  the Authorization Code grant builds a grant whose \<open>code\<close> is the token generated
  after validation and whose \<open>state\<close> is the request's state exactly when the
  request carried one (and no other field), hands it to \<open>save_authorization_grant\<close>
  with the request's client id and state, and returns the validated redirect URI with
  the grant's fields appended as query parameters (the fragment flag is false).
\<close>

theorem acg_authorization_success:
  assumes "validate_request self request s = (Inr ok, request1, s1)"
  shows "\<exists>grant.
      acg_create_authorization_response self request s =
        (add_params_to_uri (redirect_uri request1) grant False, request1,
         save_authorization_grant self (client_id request) grant (state request)
           (snd (generate_token self s1)))
      \<and> truthy (redirect_uri request1)
      \<and> map_of grant ''code'' = Some (PyStr (fst (generate_token self s1)))
      \<and> map_of grant ''state'' =
          (if truthy (state request) then map_option PyStr (state request) else None)
      \<and> fst ` set grant \<subseteq> {''code'', ''state''}"
proof -
  obtain grant s2 where g: "create_authorization_grant self request1 s1 = (grant, s2)"
    by (cases "create_authorization_grant self request1 s1") blast
  note same = validate_request_keeps(1,3) [OF assms]
  from create_authorization_grant_fields [OF g]
  have f: "s2 = snd (generate_token self s1)"
    "map_of grant ''code'' = Some (PyStr (fst (generate_token self s1)))"
    "map_of grant ''state'' =
       (if truthy (state request) then map_option PyStr (state request) else None)"
    "fst ` set grant \<subseteq> {''code'', ''state''}"
    unfolding same by blast+
  have "acg_create_authorization_response self request s =
        (add_params_to_uri (redirect_uri request1) grant False, request1,
         save_authorization_grant self (client_id request) grant (state request) s2)"
    using assms g by (simp add: acg_create_authorization_response_def same)
  moreover have "truthy (redirect_uri request1)"
    using validate_request_success [OF assms] by simp
  ultimately show ?thesis
    using f by blast
qed

theorem acg_authorization_success_witness:
  "validate_request in_memory example_request backend0 =
     (Inr True, example_request\<lparr>scopes := Some [''read'']\<rparr>, backend0)
   \<and> acg_create_authorization_response in_memory example_request backend0 =
       (add_params_to_uri (Some ''https://app.example/cb'')
          [(''code'', PyStr ''t''), (''state'', PyStr ''xyz'')] False,
        example_request\<lparr>scopes := Some [''read'']\<rparr>,
        backend0\<lparr>counter := 1,
          saved := [(Some ''abc'', [(''code'', PyStr ''t''), (''state'', PyStr ''xyz'')],
                     Some ''xyz'')]\<rparr>)
   \<and> (\<exists>grant. fst (acg_create_authorization_response in_memory example_request backend0) =
          add_params_to_uri (Some ''https://app.example/cb'') grant False
        \<and> map_of grant ''code'' = Some (PyStr ''t'')
        \<and> map_of grant ''state'' = Some (PyStr ''xyz''))"
proof -
  let ?r' = "example_request\<lparr>scopes := Some [''read'']\<rparr>"
  have run: "validate_request in_memory example_request backend0 = (Inr True, ?r', backend0)"
    by (simp add: validate_request_def fixture_defs)
  have full: "acg_create_authorization_response in_memory example_request backend0 =
       (add_params_to_uri (Some ''https://app.example/cb'')
          [(''code'', PyStr ''t''), (''state'', PyStr ''xyz'')] False, ?r',
        backend0\<lparr>counter := 1,
          saved := [(Some ''abc'', [(''code'', PyStr ''t''), (''state'', PyStr ''xyz'')],
                     Some ''xyz'')]\<rparr>)"
    by (simp add: acg_create_authorization_response_def run create_authorization_grant_def)
       (simp add: fixture_defs)
  have facts: "redirect_uri ?r' = Some ''https://app.example/cb''"
    "fst (generate_token in_memory backend0) = ''t''"
    "truthy (state example_request)" "state example_request = Some ''xyz''"
    by (simp_all add: fixture_defs)
  from acg_authorization_success [OF run]
  have "\<exists>grant. fst (acg_create_authorization_response in_memory example_request backend0) =
          add_params_to_uri (Some ''https://app.example/cb'') grant False
        \<and> map_of grant ''code'' = Some (PyStr ''t'')
        \<and> map_of grant ''state'' = Some (PyStr ''xyz'')"
    unfolding facts by auto
  with run full show ?thesis by blast
qed

text \<open>
  Claim C3 (amended). For the example request with a \<open>client_id\<close> that fails the
  client authority check, \<open>create_authorization_response\<close> returns a redirect to the
  redirect URI the request supplied, \<^verbatim>\<open>https://app.example/cb\<close>, carrying
  \<open>error=unauthorized_client\<close> and \<open>state=xyz\<close> as query parameters. The validator
  stops at the client check: \<open>validate_client\<close> is the only hook called, so the
  collaborator's default redirect URI is not consulted.
\<close>

theorem acg_unauthorized_client_redirect:
  assumes "client_id request = Some ''abc''"
      and "response_type request = Some ''code''"
      and "redirect_uri request = Some ''https://app.example/cb''"
      and "state request = Some ''xyz''"
      and "\<not> fst (validate_client self (Some ''abc'') [] s)"
  shows "fst (acg_create_authorization_response self request s) =
           add_params_to_uri (Some ''https://app.example/cb'')
             [(''error'', PyStr ''unauthorized_client''), (''state'', PyStr ''xyz'')] False
    \<and> snd (snd (acg_create_authorization_response (spy self) request (s, []))) =
           (snd (validate_client self (Some ''abc'') [] s), [ValidateClient])"
proof -
  have v: "validate_request self request s =
     (Inl (raise_error UnauthorizedClientError (Some ''xyz'') None), request,
      snd (validate_client self (Some ''abc'') [] s))"
    using assms validate_request_unauthorized_client [of request self s] by simp
  have v': "validate_request (spy self) request (s, []) =
     (Inl (raise_error UnauthorizedClientError (Some ''xyz'') None), request,
      snd (validate_client self (Some ''abc'') [] s), [ValidateClient])"
    using assms validate_request_unauthorized_client [of request "spy self" "(s, [])"]
    by (simp add: spy_validate_client)
  have t: "twotuples (raise_error UnauthorizedClientError (Some ''xyz'') None) =
     [(''error'', PyStr ''unauthorized_client''), (''state'', PyStr ''xyz'')]"
    by (simp add: twotuples_def raise_error_def optional_pair_def)
  show ?thesis
    using assms(3) by (simp add: acg_create_authorization_response_def v v' t)
qed

theorem acg_unauthorized_client_redirect_witness:
  "\<not> fst (validate_client in_memory (Some ''abc'') [] (backend0\<lparr>clients := []\<rparr>))
   \<and> fst (acg_create_authorization_response in_memory example_request
            (backend0\<lparr>clients := []\<rparr>)) =
       add_params_to_uri (Some ''https://app.example/cb'')
         [(''error'', PyStr ''unauthorized_client''), (''state'', PyStr ''xyz'')] False
   \<and> snd (snd (acg_create_authorization_response (spy in_memory) example_request
                  (backend0\<lparr>clients := []\<rparr>, []))) =
       (backend0\<lparr>clients := []\<rparr>, [ValidateClient])"
proof -
  let ?b = "backend0\<lparr>clients := []\<rparr>"
  have h: "client_id example_request = Some ''abc''"
    "response_type example_request = Some ''code''"
    "redirect_uri example_request = Some ''https://app.example/cb''"
    "state example_request = Some ''xyz''"
    by (simp_all add: fixture_defs)
  have n: "\<not> fst (validate_client in_memory (Some ''abc'') [] ?b)"
    by (simp add: fixture_defs)
  have u: "snd (validate_client in_memory (Some ''abc'') [] ?b) = ?b"
    by (simp add: fixture_defs)
  from acg_unauthorized_client_redirect [OF h n] n show ?thesis
    unfolding u by blast
qed

text \<open>
  The claim as written names the collaborator's default redirect URI as the target. A
  collaborator that knows no client and has the default
  \<^verbatim>\<open>https://default.example/cb\<close> is redirected to the request's own URI instead.
\<close>

theorem acg_unauthorized_client_not_default:
  "fst (get_default_redirect_uri in_memory (Some ''abc'') (backend0\<lparr>clients := []\<rparr>)) =
     Some ''https://default.example/cb''
   \<and> \<not> fst (validate_client in_memory (client_id example_request) []
              (backend0\<lparr>clients := []\<rparr>))
   \<and> fst (acg_create_authorization_response in_memory example_request
            (backend0\<lparr>clients := []\<rparr>)) =
       UriWithParams (Some ''https://app.example/cb'')
         [(''error'', PyStr ''unauthorized_client''), (''state'', PyStr ''xyz'')] False
   \<and> fst (acg_create_authorization_response in_memory example_request
            (backend0\<lparr>clients := []\<rparr>)) \<noteq>
       UriWithParams (Some ''https://default.example/cb'')
         [(''error'', PyStr ''unauthorized_client''), (''state'', PyStr ''xyz'')] False"
  by (simp add: acg_create_authorization_response_def validate_request_def fixture_defs
      twotuples_def raise_error_def optional_pair_def add_params_to_uri_def)

section \<open>Properties of the error model\<close>

text \<open>
  Claim C8. The redirect form and the JSON body form of a protocol error agree on
  \<open>state\<close>: when a state was supplied at construction both carry it under the key
  \<open>state\<close> with the same value, and when none was supplied neither has that key.
\<close>

theorem error_forms_agree_on_state:
  "map_of (twotuples e) ''state'' = map_option PyStr (e_state e)
   \<and> json e = JsonText (json_fields e)
   \<and> map_of (json_fields e) ''state'' = map_option PyStr (e_state e)
   \<and> (''state'' \<in> fst ` set (twotuples e) \<longleftrightarrow> e_state e \<noteq> None)
   \<and> (''state'' \<in> fst ` set (json_fields e) \<longleftrightarrow> e_state e \<noteq> None)"
  by (cases "e_state e"; cases "e_description e")
     (simp_all add: twotuples_def json_fields_def json_def json_dumps_def optional_pair_def)

section \<open>Properties of token issuance\<close>


lemma ig_create_token_cases:
  "ig_create_token self request s =
     (case scopes request of
        None \<Rightarrow> (Inl TypeError, snd (generate_token self s))
      | Some scs \<Rightarrow>
          (Inr [(''access_token'', PyStr (fst (generate_token self s))),
                (''expires_in'', PyInt 3600),
                (''scope'', PyStr (join '' '' scs)),
                (''state'', py_of (state request))], snd (generate_token self s)))"
  by (simp add: ig_create_token_def ig_expires_in_def split: prod.splits option.splits)



lemma validate_request_scopes_set:
  assumes "validate_request self request s = (Inr ok, r1, s1)"
  shows "\<exists>scs. scopes r1 = Some scs"
proof (cases "truthy (scopes request)")
  case True
  then obtain scs where "scopes request = Some scs"
    by (cases "scopes request") auto
  with True validate_request_resolved_scopes [OF assms] show ?thesis by simp
next
  case False
  with validate_request_resolved_scopes [OF assms] show ?thesis by simp
qed

lemma ig_response_failure:
  "validate_request self request s = (Inl e, r1, s1) \<Longrightarrow>
   ig_create_authorization_response self request th s =
     (Inr (add_params_to_uri (redirect_uri r1) (twotuples e) True), r1, s1)"
  by (simp add: ig_create_authorization_response_def)

lemma ig_response_success:
  assumes "validate_request self request s = (Inr ok, r1, s1)"
  shows "\<exists>scs token.
     scopes r1 = Some scs
     \<and> token = [(''access_token'', PyStr (fst (generate_token self s1))),
                (''expires_in'', PyInt 3600),
                (''scope'', PyStr (join '' '' scs)),
                (''state'', py_of (state request))]
     \<and> ig_create_authorization_response self request th s =
         (Inr (add_params_to_uri (redirect_uri r1)
                 (fst (th self token (snd (generate_token self s1)))) True),
          r1,
          save_grant self (client_id request)
            (fst (th self token (snd (generate_token self s1)))) (state request)
            (snd (th self token (snd (generate_token self s1)))))"
proof -
  from validate_request_scopes_set [OF assms] obtain scs where sc: "scopes r1 = Some scs"
    by blast
  note same = validate_request_keeps(1,3) [OF assms]
  show ?thesis
    using assms sc
    by (simp add: ig_create_authorization_response_def ig_create_token_cases same Let_def
        split: prod.splits)
qed



section \<open>Properties of the Implicit grant\<close>

lemma implicit_run:
  "validate_request in_memory (example_request\<lparr>response_type := Some ''token''\<rparr>) backend0 =
     (Inr True, example_request\<lparr>response_type := Some ''token'', scopes := Some [''read'']\<rparr>,
      backend0)"
  by (simp add: validate_request_def fixture_defs)



text \<open>
  Claim C5 (amended). Every outcome of the Implicit grant's
  \<open>create_authorization_response\<close> is in fragment form, never in query form. A
  validation failure is the error's pairs on the request's redirect URI. A success is
  the validated redirect URI with the token handler's result for a token that
  contains \<open>access_token\<close>, \<open>expires_in = 3600\<close> and \<open>scope\<close>; an exception is never
  raised.
\<close>

theorem ig_response_in_fragment_form:
  "(\<exists>uri ps. fst (ig_create_authorization_response self request th s) =
       Inr (add_params_to_uri uri ps True))
   \<and> (\<forall>e r1 s1. validate_request self request s = (Inl e, r1, s1) \<longrightarrow>
         fst (ig_create_authorization_response self request th s) =
           Inr (add_params_to_uri (redirect_uri r1) (twotuples e) True))
   \<and> (\<forall>ok r1 s1. validate_request self request s = (Inr ok, r1, s1) \<longrightarrow>
         (\<exists>scs token s2.
            scopes r1 = Some scs
            \<and> map_of token ''access_token'' = Some (PyStr (fst (generate_token self s1)))
            \<and> map_of token ''expires_in'' = Some (PyInt 3600)
            \<and> map_of token ''scope'' = Some (PyStr (join '' '' scs))
            \<and> fst (ig_create_authorization_response self request th s) =
                Inr (add_params_to_uri (redirect_uri r1) (fst (th self token s2)) True)))"
proof -
  have fail: "fst (ig_create_authorization_response self request th s) =
           Inr (add_params_to_uri (redirect_uri r1) (twotuples e) True)"
    if "validate_request self request s = (Inl e, r1, s1)" for e r1 s1
    using ig_response_failure [OF that, of th] by simp
  have succ: "\<exists>scs token s2.
            scopes r1 = Some scs
            \<and> map_of token ''access_token'' = Some (PyStr (fst (generate_token self s1)))
            \<and> map_of token ''expires_in'' = Some (PyInt 3600)
            \<and> map_of token ''scope'' = Some (PyStr (join '' '' scs))
            \<and> fst (ig_create_authorization_response self request th s) =
                Inr (add_params_to_uri (redirect_uri r1) (fst (th self token s2)) True)"
    if "validate_request self request s = (Inr ok, r1, s1)" for ok r1 s1
  proof -
    from ig_response_success [OF that, of th] obtain scs token where
      sc: "scopes r1 = Some scs"
      and t: "token = [(''access_token'', PyStr (fst (generate_token self s1))),
                (''expires_in'', PyInt 3600),
                (''scope'', PyStr (join '' '' scs)),
                (''state'', py_of (state request))]"
      and r: "fst (ig_create_authorization_response self request th s) =
          Inr (add_params_to_uri (redirect_uri r1)
                 (fst (th self token (snd (generate_token self s1)))) True)"
      by auto
    from t have "map_of token ''access_token'' = Some (PyStr (fst (generate_token self s1)))"
      "map_of token ''expires_in'' = Some (PyInt 3600)"
      "map_of token ''scope'' = Some (PyStr (join '' '' scs))"
      by simp_all
    with sc r show ?thesis by blast
  qed
  have form: "\<exists>uri ps. fst (ig_create_authorization_response self request th s) =
       Inr (add_params_to_uri uri ps True)"
  proof -
    obtain res r1 s1 where v: "validate_request self request s = (res, r1, s1)"
      by (cases "validate_request self request s") blast
    show ?thesis
    proof (cases res)
      case (Inl e)
      with v fail [of e r1 s1] show ?thesis by blast
    next
      case (Inr ok)
      with v succ [of ok r1 s1] show ?thesis by blast
    qed
  qed
  from form fail succ show ?thesis by blast
qed

theorem ig_response_in_fragment_form_witness:
  "validate_request in_memory (example_request\<lparr>response_type := Some ''token''\<rparr>) backend0 =
     (Inr True, example_request\<lparr>response_type := Some ''token'', scopes := Some [''read'']\<rparr>,
      backend0)
   \<and> (\<exists>token s2.
         map_of token ''access_token'' = Some (PyStr ''t'')
         \<and> map_of token ''expires_in'' = Some (PyInt 3600)
         \<and> map_of token ''scope'' = Some (PyStr ''read'')
         \<and> fst (ig_create_authorization_response in_memory
                  (example_request\<lparr>response_type := Some ''token''\<rparr>) ig_keep_token backend0) =
             Inr (add_params_to_uri (Some ''https://app.example/cb'')
                    (fst (ig_keep_token in_memory token s2)) True))
   \<and> fst (ig_create_authorization_response in_memory blank_request ig_keep_token backend0) =
       Inr (add_params_to_uri None
              [(''error'', PyStr ''invalid_request''),
               (''error_description'', PyStr ''Missing client_id parameter.'')] True)"
proof -
  let ?r = "example_request\<lparr>response_type := Some ''token''\<rparr>"
  let ?r1 = "example_request\<lparr>response_type := Some ''token'', scopes := Some [''read'']\<rparr>"
  note run = implicit_run
  have facts: "redirect_uri ?r1 = Some ''https://app.example/cb''"
    "fst (generate_token in_memory backend0) = ''t''"
    "scopes ?r1 = Some [''read'']"
    by (simp_all add: fixture_defs)
  from ig_response_in_fragment_form [of in_memory ?r ig_keep_token backend0] run
  have "\<exists>scs token s2.
            scopes ?r1 = Some scs
            \<and> map_of token ''access_token'' = Some (PyStr (fst (generate_token in_memory backend0)))
            \<and> map_of token ''expires_in'' = Some (PyInt 3600)
            \<and> map_of token ''scope'' = Some (PyStr (join '' '' scs))
            \<and> fst (ig_create_authorization_response in_memory ?r ig_keep_token backend0) =
                Inr (add_params_to_uri (redirect_uri ?r1) (fst (ig_keep_token in_memory token s2)) True)"
    by blast
  then have ok: "\<exists>token s2.
         map_of token ''access_token'' = Some (PyStr ''t'')
         \<and> map_of token ''expires_in'' = Some (PyInt 3600)
         \<and> map_of token ''scope'' = Some (PyStr ''read'')
         \<and> fst (ig_create_authorization_response in_memory ?r ig_keep_token backend0) =
             Inr (add_params_to_uri (Some ''https://app.example/cb'')
                    (fst (ig_keep_token in_memory token s2)) True)"
    unfolding facts by auto
  have bad: "validate_request in_memory blank_request backend0 =
     (Inl (raise_error InvalidRequestError None (Some ''Missing client_id parameter.'')),
      blank_request, backend0)"
    by (simp add: validate_request_def fixture_defs)
  have tt: "twotuples (raise_error InvalidRequestError None (Some ''Missing client_id parameter.''))
     = [(''error'', PyStr ''invalid_request''),
        (''error_description'', PyStr ''Missing client_id parameter.'')]"
    by (simp add: twotuples_def raise_error_def optional_pair_def)
  have ru: "redirect_uri blank_request = None"
    by (simp add: fixture_defs)
  from ig_response_in_fragment_form [of in_memory blank_request ig_keep_token backend0] bad
  have "fst (ig_create_authorization_response in_memory blank_request ig_keep_token backend0) =
       Inr (add_params_to_uri (redirect_uri blank_request)
              (twotuples (raise_error InvalidRequestError None
                            (Some ''Missing client_id parameter.''))) True)"
    by blast
  with run ok show ?thesis
    unfolding tt ru by blast
qed

text \<open>
  The claim as written puts \<open>access_token\<close>, \<open>expires_in\<close> and \<open>scope\<close> into the
  fragment of every success. The fragment holds what the token handler returns: with
  a handler that wraps the token into one signed value none of the three is there.
\<close>

theorem ig_response_wrapped_token:
  "fst (validate_request in_memory (example_request\<lparr>response_type := Some ''token''\<rparr>)
          backend0) = Inr True
   \<and> fst (ig_create_authorization_response in_memory
            (example_request\<lparr>response_type := Some ''token''\<rparr>) ig_wrap_token backend0) =
       Inr (UriWithParams (Some ''https://app.example/cb'') [(''jwt'', PyStr ''signed'')] True)
   \<and> map_of [(''jwt'', PyStr ''signed'')] ''access_token'' = None
   \<and> map_of [(''jwt'', PyStr ''signed'')] ''expires_in'' = None
   \<and> map_of [(''jwt'', PyStr ''signed'')] ''scope'' = None"
  by (simp add: ig_create_authorization_response_def implicit_run ig_create_token_cases
      ig_wrap_token_def add_params_to_uri_def)
     (simp add: fixture_defs)




section \<open>Redeeming an authorization code\<close>

text \<open>
  \<open>create_token_response\<close> validates the request with \<open>validate_request\<close>, the
  validator of the authorization endpoint. \<open>validate_token_request\<close>, the only caller
  of \<open>validate_code\<close>, is not called by it: whatever the collaborator, the request
  and the token handler, the log of a redemption never holds \<open>ValidateCode\<close>.
\<close>

lemma spy_validate_request_log:
  "validate_request (spy self) request (s, l) = (res, r', (s', l')) \<Longrightarrow>
   set l' \<subseteq> set l \<union> {ValidateClient, ValidateScopes, GetDefaultScopes, ValidateRedirectUri,
                      GetDefaultRedirectUri}"
  unfolding validate_request_def spy_def logged_def
  by (auto simp: Let_def split: prod.splits sum.splits if_splits)

lemma acg_create_token_response_never_validates_code:
  "ValidateCode \<notin> set (snd (snd (snd
      (acg_create_token_response (spy self) request (quiet th) (s, [])))))"
proof -
  let ?r = "request\<lparr>code := map_of (params request) ''code'',
                     redirect_uri := map_of (params request) ''redirect_uri''\<rparr>"
  obtain res r1 s1 l1 where v: "validate_request (spy self) ?r (s, []) = (res, r1, (s1, l1))"
    by (cases "validate_request (spy self) ?r (s, [])") auto
  from spy_validate_request_log [OF v] have l1: "ValidateCode \<notin> set l1"
    by auto
  show ?thesis
  proof (cases res)
    case (Inl e)
    with v l1 show ?thesis
      by (simp add: acg_create_token_response_def Let_def)
  next
    case (Inr ok)
    with v l1 show ?thesis
      by (simp add: acg_create_token_response_def Let_def spy_def logged_def quiet_def
          acg_create_token_def split: prod.splits)
  qed
qed

lemma token_request_validated:
  "validate_request (spy in_memory)
     (token_request\<lparr>code := Some ''c1'', redirect_uri := Some ''https://app.example/cb''\<rparr>)
     (b, l) =
   (if ''abc'' \<in> set (clients b) then
     (Inr True,
      token_request\<lparr>code := Some ''c1'', redirect_uri := Some ''https://app.example/cb'',
                    scopes := Some (default_scopes b)\<rparr>,
      (b, l @ [ValidateClient, GetDefaultScopes, ValidateRedirectUri]))
    else
     (Inl (raise_error UnauthorizedClientError None None),
      token_request\<lparr>code := Some ''c1'', redirect_uri := Some ''https://app.example/cb''\<rparr>,
      (b, l @ [ValidateClient])))"
  by (simp add: validate_request_def spy_def logged_def in_memory_def blank_request_def
      token_request_def image_iff)

lemma token_request_redeemed:
  "''abc'' \<in> set (clients b) \<Longrightarrow>
   acg_create_token_response (spy in_memory) token_request keep_token (b, l) =
     (JsonText [(''access_token'', PyStr (''t'' @ replicate (counter b) (CHR ''x''))),
                (''refresh_token'', PyStr (''t'' @ replicate (Suc (counter b)) (CHR ''x''))),
                (''expires_in'', PyInt 3600),
                (''scope'', PyStr (join '' '' (default_scopes b)))],
      token_request\<lparr>code := Some ''c1'', redirect_uri := Some ''https://app.example/cb'',
                    scopes := Some (default_scopes b)\<rparr>,
      (b\<lparr>counter := Suc (Suc (counter b))\<rparr>,
       l @ [ValidateClient, GetDefaultScopes, ValidateRedirectUri, GetScopes]))"
proof -
  assume c: "''abc'' \<in> set (clients b)"
  have p: "token_request\<lparr>code := map_of (params token_request) ''code'',
             redirect_uri := map_of (params token_request) ''redirect_uri''\<rparr> =
           token_request\<lparr>code := Some ''c1'', redirect_uri := Some ''https://app.example/cb''\<rparr>"
    by (simp add: token_request_def blank_request_def)
  show ?thesis
    unfolding acg_create_token_response_def Let_def
    apply (simp add: p token_request_validated c del: replicate_Suc)
    apply (simp add: spy_def logged_def in_memory_def acg_create_token_def acg_expires_in_def
        keep_token_def json_dumps_def del: replicate_Suc)
    done
qed

text \<open>
  Claim C1 (not met by the code). The docstring of \<open>create_token_response\<close> reads
  ``Validate the authorization code'' and forbids a second use of a code. Run on the
  in-memory collaborator, whose \<open>validate_code\<close> accepts an outstanding code once:
  the first redemption of \<open>c1\<close> returns a token and calls the hooks
  \<open>validate_client\<close>, \<open>get_default_scopes\<close>, \<open>validate_redirect_uri\<close> and
  \<open>get_scopes\<close>; the second redemption of the same code returns a token again, and so
  does a redemption when no code is outstanding at all. \<open>validate_token_request\<close> on
  the same request accepts \<open>c1\<close> the first time and answers InvalidGrant the second
  time.
\<close>

theorem code_redeemed_twice:
  "acg_create_token_response (spy in_memory) token_request keep_token (backend0, []) =
     (JsonText [(''access_token'', PyStr ''t''), (''refresh_token'', PyStr ''tx''),
                (''expires_in'', PyInt 3600), (''scope'', PyStr ''read'')],
      token_request\<lparr>code := Some ''c1'', redirect_uri := Some ''https://app.example/cb'',
                    scopes := Some [''read'']\<rparr>,
      (backend0\<lparr>counter := 2\<rparr>,
       [ValidateClient, GetDefaultScopes, ValidateRedirectUri, GetScopes]))
   \<and> acg_create_token_response (spy in_memory) token_request keep_token
        (backend0\<lparr>counter := 2\<rparr>, []) =
     (JsonText [(''access_token'', PyStr ''txx''), (''refresh_token'', PyStr ''txxx''),
                (''expires_in'', PyInt 3600), (''scope'', PyStr ''read'')],
      token_request\<lparr>code := Some ''c1'', redirect_uri := Some ''https://app.example/cb'',
                    scopes := Some [''read'']\<rparr>,
      (backend0\<lparr>counter := 4\<rparr>,
       [ValidateClient, GetDefaultScopes, ValidateRedirectUri, GetScopes]))
   \<and> fst (acg_create_token_response in_memory token_request keep_token
            (backend0\<lparr>outstanding_codes := []\<rparr>)) =
     JsonText [(''access_token'', PyStr ''t''), (''refresh_token'', PyStr ''tx''),
               (''expires_in'', PyInt 3600), (''scope'', PyStr ''read'')]
   \<and> validate_token_request in_memory (token_request\<lparr>code := Some ''c1''\<rparr>) backend0 =
     (Inr (), backend0\<lparr>outstanding_codes := []\<rparr>)
   \<and> validate_token_request in_memory (token_request\<lparr>code := Some ''c1''\<rparr>)
        (backend0\<lparr>outstanding_codes := []\<rparr>) =
     (Inl (raise_error InvalidGrantError None None), backend0\<lparr>outstanding_codes := []\<rparr>)"
proof -
  have c0: "''abc'' \<in> set (clients backend0)"
    and c2: "''abc'' \<in> set (clients (backend0\<lparr>counter := 2\<rparr>))"
    by (simp_all add: backend0_def)
  have first: "acg_create_token_response (spy in_memory) token_request keep_token (backend0, []) =
     (JsonText [(''access_token'', PyStr ''t''), (''refresh_token'', PyStr ''tx''),
                (''expires_in'', PyInt 3600), (''scope'', PyStr ''read'')],
      token_request\<lparr>code := Some ''c1'', redirect_uri := Some ''https://app.example/cb'',
                    scopes := Some [''read'']\<rparr>,
      (backend0\<lparr>counter := 2\<rparr>,
       [ValidateClient, GetDefaultScopes, ValidateRedirectUri, GetScopes]))"
    unfolding token_request_redeemed [OF c0] by (simp add: backend0_def)
  have second: "acg_create_token_response (spy in_memory) token_request keep_token
        (backend0\<lparr>counter := 2\<rparr>, []) =
     (JsonText [(''access_token'', PyStr ''txx''), (''refresh_token'', PyStr ''txxx''),
                (''expires_in'', PyInt 3600), (''scope'', PyStr ''read'')],
      token_request\<lparr>code := Some ''c1'', redirect_uri := Some ''https://app.example/cb'',
                    scopes := Some [''read'']\<rparr>,
      (backend0\<lparr>counter := 4\<rparr>,
       [ValidateClient, GetDefaultScopes, ValidateRedirectUri, GetScopes]))"
    unfolding token_request_redeemed [OF c2] by (simp add: backend0_def numeral_2_eq_2 numeral_3_eq_3)
  have third: "fst (acg_create_token_response in_memory token_request keep_token
            (backend0\<lparr>outstanding_codes := []\<rparr>)) =
     JsonText [(''access_token'', PyStr ''t''), (''refresh_token'', PyStr ''tx''),
               (''expires_in'', PyInt 3600), (''scope'', PyStr ''read'')]"
    by (simp add: acg_create_token_response_def validate_request_def token_request_def
        blank_request_def in_memory_def backend0_def acg_create_token_def acg_expires_in_def
        keep_token_def json_dumps_def)
  have sib1: "validate_token_request in_memory (token_request\<lparr>code := Some ''c1''\<rparr>) backend0 =
     (Inr (), backend0\<lparr>outstanding_codes := []\<rparr>)"
    by (simp add: validate_token_request_def token_request_def blank_request_def in_memory_def
        backend0_def backend_validate_code_def)
  have sib2: "validate_token_request in_memory (token_request\<lparr>code := Some ''c1''\<rparr>)
        (backend0\<lparr>outstanding_codes := []\<rparr>) =
     (Inl (raise_error InvalidGrantError None None), backend0\<lparr>outstanding_codes := []\<rparr>)"
    by (simp add: validate_token_request_def token_request_def blank_request_def in_memory_def
        backend0_def backend_validate_code_def)
  from first second third sib1 sib2 show ?thesis by blast
qed

end
